theory Spec2Isabelle
  imports Complex_Main
begin

section \<open>JavaScript strings\<close>

text \<open>
  A JavaScript string is a sequence of UTF-16 code units. Every literal of the sources lies
  in the Basic Multilingual Plane, so a code unit is a code point. ASCII runs are written
  with \<open>ascii\<close>, other code units by number.
\<close>

type_synonym jsstring = "nat list"

definition ascii :: "string \<Rightarrow> jsstring" where
  "ascii s = map of_char s"

text \<open>A string is truthy when it is not empty; \<open>null\<close> and \<open>undefined\<close> are \<open>None\<close>.\<close>

definition truthy :: "jsstring option \<Rightarrow> bool" where
  "truthy v = (case v of None \<Rightarrow> False | Some s \<Rightarrow> s \<noteq> [])"

text \<open>\<open>String.prototype.startsWith\<close> and \<open>String.prototype.includes\<close> (search from position 0).\<close>

fun startsWith :: "jsstring \<Rightarrow> jsstring \<Rightarrow> bool" where
  "startsWith t [] = True"
| "startsWith [] (k # ks) = False"
| "startsWith (c # cs) (k # ks) = (c = k \<and> startsWith cs ks)"

fun includes_str :: "jsstring \<Rightarrow> jsstring \<Rightarrow> bool" where
  "includes_str [] k = (k = [])"
| "includes_str (c # cs) k = (startsWith (c # cs) k \<or> includes_str cs k)"

text \<open>
  \<open>String.prototype.trim\<close> removes the WhiteSpace and LineTerminator code points of
  ECMAScript from both ends.
\<close>

definition isWhiteSpace :: "nat \<Rightarrow> bool" where
  "isWhiteSpace c =
     (c = 0x9 \<or> c = 0xA \<or> c = 0xB \<or> c = 0xC \<or> c = 0xD \<or> c = 0x20 \<or> c = 0xA0 \<or>
      c = 0x1680 \<or> (0x2000 \<le> c \<and> c \<le> 0x200A) \<or> c = 0x2028 \<or> c = 0x2029 \<or>
      c = 0x202F \<or> c = 0x205F \<or> c = 0x3000 \<or> c = 0xFEFF)"

definition trim :: "jsstring \<Rightarrow> jsstring" where
  "trim s = rev (dropWhile isWhiteSpace (rev (dropWhile isWhiteSpace s)))"

text \<open>
  \<open>String.prototype.toLowerCase\<close> and \<open>toUpperCase\<close> map each code unit by the
  Unicode default case mapping; a unit may map to several (\<open>U+0130\<close> to \<open>i\<close> and a
  combining dot, \<open>U+00DF\<close> to \<open>SS\<close>). The tables below hold Basic Latin, the Latin-1
  Supplement, the Azerbaijani and Turkish letters \<open>U+011E/F\<close>, \<open>U+0130/1\<close>,
  \<open>U+015E/F\<close>, \<open>U+018F\<close>/\<open>U+0259\<close>, and Cyrillic \<open>U+0400\<close> to \<open>U+045F\<close>: the
  scripts of every literal of the sources. The model leaves a code unit outside these
  blocks as it is, where ECMAScript maps the letters of further scripts (and has a context
  rule for the Greek final sigma). The theorems about all strings use the tables on ASCII
  only; the tables are otherwise evaluated at concrete inputs of these blocks.
\<close>

definition lowerUnit :: "nat \<Rightarrow> jsstring" where
  "lowerUnit c =
     (if 0x41 \<le> c \<and> c \<le> 0x5A then [c + 0x20]
      else if 0xC0 \<le> c \<and> c \<le> 0xDE \<and> c \<noteq> 0xD7 then [c + 0x20]
      else if c = 0x11E then [0x11F]
      else if c = 0x130 then [0x69, 0x307]
      else if c = 0x15E then [0x15F]
      else if c = 0x18F then [0x259]
      else if 0x400 \<le> c \<and> c \<le> 0x40F then [c + 0x50]
      else if 0x410 \<le> c \<and> c \<le> 0x42F then [c + 0x20]
      else [c])"

definition upperUnit :: "nat \<Rightarrow> jsstring" where
  "upperUnit c =
     (if 0x61 \<le> c \<and> c \<le> 0x7A then [c - 0x20]
      else if c = 0xB5 then [0x39C]
      else if c = 0xDF then [0x53, 0x53]
      else if 0xE0 \<le> c \<and> c \<le> 0xFE \<and> c \<noteq> 0xF7 then [c - 0x20]
      else if c = 0xFF then [0x178]
      else if c = 0x11F then [0x11E]
      else if c = 0x131 then [0x49]
      else if c = 0x15F then [0x15E]
      else if c = 0x259 then [0x18F]
      else if 0x430 \<le> c \<and> c \<le> 0x44F then [c - 0x20]
      else if 0x450 \<le> c \<and> c \<le> 0x45F then [c - 0x50]
      else [c])"

definition toLowerCase :: "jsstring \<Rightarrow> jsstring" where
  "toLowerCase s = concat (map lowerUnit s)"

definition toUpperCase :: "jsstring \<Rightarrow> jsstring" where
  "toUpperCase s = concat (map upperUnit s)"

text \<open>\<open>Number.prototype.toString\<close> on a non-negative integer: its decimal digits.\<close>

fun showNat :: "nat \<Rightarrow> jsstring" where
  "showNat n = (if n < 10 then [48 + n] else showNat (n div 10) @ [48 + n mod 10])"

declare showNat.simps [simp del]

section \<open>Intent classifier (App.tsx, isImageGenerationRequest)\<close>

definition keywords_list :: "jsstring list" where
  "keywords_list =
     [ascii ''yarat'',
      [0xE7, 0x259] @ ascii ''k'',
      ascii ''haz'' @ [0x131] @ ascii ''rla'',
      [0xE7] @ ascii ''iz'',
      ascii ''olu'' @ [0x15F] @ ascii ''tur'',
      ascii ''tasarla'',
      ascii ''draw'',
      ascii ''generate'',
      ascii ''create'',
      ascii ''paint'',
      [0x43D, 0x430, 0x440, 0x438, 0x441, 0x443, 0x439],
      [0x441, 0x43E, 0x437, 0x434, 0x430, 0x439]]"

definition subjects :: "jsstring list" where
  "subjects =
     [[0x15F, 0x259] @ ascii ''kil'',
      ascii ''foto'',
      ascii ''t'' @ [0x259] @ ascii ''svir'',
      ascii ''m'' @ [0x259] @ ascii ''nz'' @ [0x259] @ ascii ''r'' @ [0x259],
      ascii ''resim'',
      ascii ''g'' @ [0xF6] @ ascii ''r'' @ [0xFC] @ ascii ''nt'' @ [0xFC],
      ascii ''foto'' @ [0x11F] @ ascii ''raf'',
      ascii ''image'',
      ascii ''picture'',
      ascii ''photo'',
      [0x43A, 0x430, 0x440, 0x442, 0x438, 0x43D, 0x43A, 0x443],
      [0x438, 0x437, 0x43E, 0x431, 0x440, 0x430, 0x436, 0x435, 0x43D, 0x438, 0x435]]"

definition isImageGenerationRequest :: "jsstring \<Rightarrow> bool" where
  "isImageGenerationRequest text =
     (let lowerText = toLowerCase text
      in list_ex (\<lambda>k. includes_str lowerText k) keywords_list \<and>
         list_ex (\<lambda>s. includes_str lowerText s) subjects)"

section \<open>Data model (types.ts)\<close>

text \<open>
  The fields of \<open>Message\<close> and \<open>Project\<close> carry the prefixes \<open>m_\<close> and \<open>p_\<close>: both
  interfaces have an \<open>id\<close>. An optional field is an \<open>option\<close>; a \<open>Date\<close> is its
  time in milliseconds.
\<close>

datatype Sender = USER | BOT

record Message =
  m_id :: jsstring
  m_sender :: Sender
  m_text :: jsstring
  m_timestamp :: nat
  m_isError :: "bool option"
  m_attachment :: "jsstring option"

record Project =
  p_id :: jsstring
  p_name :: jsstring
  p_code :: jsstring
  p_thumbnail :: "jsstring option"
  p_createdAt :: nat

section \<open>Transport client (services/geminiService, src/unnamed/part_000)\<close>

text \<open>A thrown \<open>Error\<close> object, with its message.\<close>

datatype js_error = Error jsstring

datatype Part = InlineData jsstring jsstring | TextPart jsstring

record Content =
  role :: jsstring
  parts :: "Part list"

text \<open>
  The system instruction is the template of \<open>getSystemInstruction\<close> at a language name;
  the request records the language it was built at.
\<close>

datatype system_instruction = SystemInstruction jsstring

record GenerateContentRequest =
  gc_model :: jsstring
  gc_contents :: "Content list"
  gc_systemInstruction :: system_instruction
  gc_temperature :: rat
  gc_topP :: rat
  gc_maxOutputTokens :: nat

record GenerateContentResponse =
  resp_text :: "jsstring option"

record GenerateImagesRequest =
  gi_model :: jsstring
  gi_prompt :: jsstring
  gi_numberOfImages :: nat
  gi_outputMimeType :: jsstring

record Image =
  imageBytes :: "jsstring option"

record GeneratedImage =
  image :: "Image option"

record GenerateImagesResponse =
  generatedImages :: "GeneratedImage list option"

text \<open>
  The two endpoints of the SDK are parameters: a call either throws (\<open>Inl\<close>) or returns a
  response (\<open>Inr\<close>). The calls of \<open>console.error\<close> write to the console only and are
  left out.
\<close>

type_synonym generateContent_api = "GenerateContentRequest \<Rightarrow> js_error + GenerateContentResponse"
type_synonym generateImages_api = "GenerateImagesRequest \<Rightarrow> js_error + GenerateImagesResponse"

definition TEXT_MODEL_NAME :: jsstring where
  "TEXT_MODEL_NAME = ascii ''gemini-2.5-flash''"

definition IMAGE_MODEL_NAME :: jsstring where
  "IMAGE_MODEL_NAME = ascii ''imagen-4.0-generate-001''"

definition getSystemInstruction :: "jsstring \<Rightarrow> system_instruction" where
  "getSystemInstruction language = SystemInstruction language"

definition imageBusyMessage :: jsstring where
  "imageBusyMessage =
     [0x15E, 0x259] @ ascii ''kil serveri m'' @ [0x259, 0x15F, 0x11F] @
     ascii ''uldur. Bir az sonra yoxlay'' @ [0x131] @ ascii ''n.''"

definition connectionLostMessage :: jsstring where
  "connectionLostMessage =
     ascii ''Sistem x'' @ [0x259] @ ascii ''tas'' @ [0x131] @ ascii '': SbefBOTV2 '' @ [0x259] @
     ascii ''laq'' @ [0x259] @ ascii ''ni itirdi.''"

definition responseBlockedNotice :: jsstring where
  "responseBlockedNotice =
     ascii ''Ba'' @ [0x11F, 0x131, 0x15F] @ ascii ''lay'' @ [0x131] @ ascii ''n, t'' @ [0x259] @
     ascii ''hl'' @ [0xFC] @ ascii ''k'' @ [0x259] @ ascii ''sizlik protokolu cavab'' @ [0x131] @
     ascii '' bloklad'' @ [0x131] @ ascii ''.''"

definition imageRequest :: "jsstring \<Rightarrow> GenerateImagesRequest" where
  "imageRequest prompt =
     \<lparr>gi_model = IMAGE_MODEL_NAME, gi_prompt = prompt, gi_numberOfImages = 1,
      gi_outputMimeType = ascii ''image/jpeg''\<rparr>"

text \<open>
  \<open>generateImage\<close>: every throw inside the \<open>try\<close> block (the call, the explicit throw on
  no images, the read of \<open>.imageBytes\<close> of an absent \<open>image\<close>) reaches the \<open>catch\<close>,
  which throws the fixed message. The result is \<open>imageBytes\<close> as the response has it.
\<close>

definition generateImage :: "generateImages_api \<Rightarrow> jsstring \<Rightarrow> js_error + jsstring option" where
  "generateImage generateImages prompt =
     (case generateImages (imageRequest prompt) of
        Inl error \<Rightarrow> Inl (Error imageBusyMessage)
      | Inr response \<Rightarrow>
          (case generatedImages response of
             None \<Rightarrow> Inl (Error imageBusyMessage)
           | Some [] \<Rightarrow> Inl (Error imageBusyMessage)
           | Some (g # _) \<Rightarrow>
               (case image g of
                  None \<Rightarrow> Inl (Error imageBusyMessage)
                | Some img \<Rightarrow> Inr (imageBytes img))))"

text \<open>The callback of \<open>history.map\<close>: one turn per message.\<close>

definition historyTurn :: "Message \<Rightarrow> Content" where
  "historyTurn msg =
     \<lparr>role = (if m_sender msg = USER then ascii ''user'' else ascii ''model''),
      parts =
        (case m_attachment msg of
           None \<Rightarrow> []
         | Some data \<Rightarrow> if data \<noteq> [] then [InlineData (ascii ''image/jpeg'') data] else []) @
        (if m_text msg \<noteq> [] \<or> \<not> truthy (m_attachment msg)
         then [TextPart (if m_text msg \<noteq> [] then m_text msg else ascii '' '')] else [])\<rparr>"

definition currentParts :: "jsstring \<Rightarrow> jsstring option \<Rightarrow> Part list" where
  "currentParts currentMessage imageBase64 =
     (case imageBase64 of
        None \<Rightarrow> []
      | Some data \<Rightarrow> if data \<noteq> [] then [InlineData (ascii ''image/jpeg'') data] else []) @
     [TextPart currentMessage]"

definition buildContents :: "Message list \<Rightarrow> jsstring \<Rightarrow> jsstring option \<Rightarrow> Content list" where
  "buildContents history currentMessage imageBase64 =
     map historyTurn history @
     [\<lparr>role = ascii ''user'', parts = currentParts currentMessage imageBase64\<rparr>]"

definition textRequest ::
  "Message list \<Rightarrow> jsstring \<Rightarrow> jsstring option \<Rightarrow> jsstring \<Rightarrow> GenerateContentRequest" where
  "textRequest history currentMessage imageBase64 language =
     \<lparr>gc_model = TEXT_MODEL_NAME,
      gc_contents = buildContents history currentMessage imageBase64,
      gc_systemInstruction = getSystemInstruction language,
      gc_temperature = 85 / 100, gc_topP = 95 / 100, gc_maxOutputTokens = 8000\<rparr>"

definition sendMessageToGemini ::
  "generateContent_api \<Rightarrow> Message list \<Rightarrow> jsstring \<Rightarrow> jsstring option \<Rightarrow> jsstring \<Rightarrow>
   js_error + jsstring" where
  "sendMessageToGemini generateContent history currentMessage imageBase64 language =
     (case generateContent (textRequest history currentMessage imageBase64 language) of
        Inl error \<Rightarrow> Inl (Error connectionLostMessage)
      | Inr response \<Rightarrow>
          (case resp_text response of
             None \<Rightarrow> Inr responseBlockedNotice
           | Some text \<Rightarrow> if text = [] then Inr responseBlockedNotice else Inr text))"

section \<open>Message rendering (components/ChatMessage)\<close>

text \<open>
  \<open>splitAtFirst pat t\<close> cuts \<open>t\<close> at the first occurrence of \<open>pat\<close>: the text before it and
  the text after it.
\<close>

fun splitAtFirst :: "jsstring \<Rightarrow> jsstring \<Rightarrow> (jsstring \<times> jsstring) option" where
  "splitAtFirst pat [] = (if pat = [] then Some ([], []) else None)"
| "splitAtFirst pat (c # cs) =
     (if startsWith (c # cs) pat then Some ([], drop (length pat) (c # cs))
      else (case splitAtFirst pat cs of
              None \<Rightarrow> None
            | Some (before, rest) \<Rightarrow> Some (c # before, rest)))"

definition fence :: jsstring where
  "fence = [0x60, 0x60, 0x60]"

definition fenceHtml :: jsstring where
  "fenceHtml = fence @ ascii ''html''"

definition doctype :: jsstring where
  "doctype = ascii ''<!DOCTYPE html>''"

text \<open>
  Group 1 of the first match of the regular expression: the opening fence tagged
  \<open>html\<close>, any characters (lazily), the closing fence. The leftmost match starts at the
  first opening fence that a fence follows, which is the first opening fence of the text (a
  later opening fence would itself close it); the lazy group ends at the first fence after it.
\<close>

definition htmlMatch :: "jsstring \<Rightarrow> jsstring option" where
  "htmlMatch t =
     (case splitAtFirst fenceHtml t of
        None \<Rightarrow> None
      | Some (before, rest) \<Rightarrow>
          (case splitAtFirst fence rest of
             None \<Rightarrow> None
           | Some (inner, after) \<Rightarrow> Some inner))"

text \<open>
  The state \<open>htmlCode\<close> of a \<open>ChatMessage\<close> once its effect has run (\<open>None\<close> is the
  initial \<open>null\<close>), and the condition under which the preview button is rendered (\<open>App\<close>
  passes \<open>onPreview\<close> to every message).
\<close>

definition htmlCode :: "Message \<Rightarrow> jsstring option" where
  "htmlCode message =
     (let isUser = (m_sender message = USER)
      in if \<not> isUser \<and> includes_str (m_text message) fenceHtml then
           (case htmlMatch (m_text message) of
              None \<Rightarrow> None
            | Some g \<Rightarrow> if g \<noteq> [] then Some (trim g) else None)
         else if \<not> isUser \<and> includes_str (m_text message) doctype then Some (m_text message)
         else None)"

definition previewButtonShown :: "Message \<Rightarrow> bool" where
  "previewButtonShown message = truthy (htmlCode message)"

section \<open>Application state and handlers (App.tsx)\<close>

datatype Language = az | tr | en | ru

datatype View = chat | projects_view | preview

text \<open>
  The state hooks of \<open>App\<close> that the handlers below read or write, and the log of the
  \<open>alert\<close> calls. The overlays for settings and memory, the voice settings and the speech
  recognition flag are independent of them and left out.
\<close>

record app_state =
  selectedLanguage :: "Language option"
  messages :: "Message list"
  inputValue :: jsstring
  isLoading :: bool
  attachment :: "jsstring option"
  currentView :: View
  projects :: "Project list"
  previewCode :: jsstring
  projectNameInput :: jsstring
  showSaveDialog :: bool
  alerts :: "jsstring list"

definition initial_state :: app_state where
  "initial_state =
     \<lparr>selectedLanguage = None, messages = [], inputValue = [], isLoading = False,
      attachment = None, currentView = chat, projects = [], previewCode = [],
      projectNameInput = [], showSaveDialog = False, alerts = []\<rparr>"

fun WELCOME_MESSAGES :: "Language \<Rightarrow> jsstring" where
  "WELCOME_MESSAGES az =
     ascii ''SbefBOTV2 sistemd'' @ [0x259] @ ascii ''dir. Tural Al'' @ [0x131] @ ascii ''yev t'' @
     [0x259] @ ascii ''r'' @ [0x259] @ ascii ''find'' @ [0x259] @ ascii ''n yenil'' @ [0x259] @
     ascii ''ndi. E'' @ [0x15F] @ ascii ''idir'' @ [0x259] @ ascii ''m s'' @ [0x259] @
     ascii ''ni, n'' @ [0x259] @ ascii '' laz'' @ [0x131] @ ascii ''md'' @ [0x131] @ ascii ''r?''"
| "WELCOME_MESSAGES tr =
     ascii ''SbefBOTV2 devrede. Tural Al'' @ [0x131] @ ascii ''yev taraf'' @ [0x131] @
     ascii ''ndan g'' @ [0xFC] @ ascii ''ncellendi. Seni dinliyorum, ne yapal'' @ [0x131] @
     ascii ''m?''"
| "WELCOME_MESSAGES en =
     ascii ''SbefBOTV2 Online. Upgraded by Tural Aliyev. I am listening, how can I assist?''"
| "WELCOME_MESSAGES ru =
     ascii ''SbefBOTV2 '' @ [0x432] @ ascii '' '' @ [0x441, 0x435, 0x442, 0x438] @ ascii ''. '' @
     [0x41E, 0x431, 0x43D, 0x43E, 0x432, 0x43B, 0x435, 0x43D] @ ascii '' '' @
     [0x422, 0x443, 0x440, 0x430, 0x43B, 0x43E, 0x43C] @ ascii '' '' @
     [0x410, 0x43B, 0x44B, 0x435, 0x432, 0x44B, 0x43C] @ ascii ''. '' @ [0x42F] @ ascii '' '' @
     [0x441, 0x43B, 0x443, 0x448, 0x430, 0x44E] @ ascii '', '' @ [0x447, 0x435, 0x43C] @
     ascii '' '' @ [0x43F, 0x43E, 0x43C, 0x43E, 0x447, 0x44C] @ ascii ''?''"

fun langMap :: "Language \<Rightarrow> jsstring" where
  "langMap az = ascii ''Az'' @ [0x259] @ ascii ''rbaycan dili''"
| "langMap tr = ascii ''T'' @ [0xFC] @ ascii ''rk'' @ [0xE7] @ ascii ''e''"
| "langMap en = ascii ''English''"
| "langMap ru =
     [0x420, 0x443, 0x441, 0x441, 0x43A, 0x438, 0x439] @ ascii '' '' @ [0x44F, 0x437, 0x44B, 0x43A]"

definition handleLanguageSelect :: "nat \<Rightarrow> Language \<Rightarrow> app_state \<Rightarrow> app_state" where
  "handleLanguageSelect date lang s =
     s\<lparr>selectedLanguage := Some lang,
       messages :=
         [\<lparr>m_id = ascii ''welcome'', m_sender = BOT, m_text = WELCOME_MESSAGES lang,
           m_timestamp = date, m_isError = None, m_attachment = None\<rparr>]\<rparr>"

text \<open>
  What one run of \<open>handleSendMessage\<close> reads from outside: the clock (\<open>Date.now()\<close> and
  \<open>new Date()\<close>, for the user message and for the reply) and the two endpoints.
\<close>

record send_env =
  now_user :: nat
  date_user :: nat
  now_reply :: nat
  date_reply :: nat
  generateContent :: generateContent_api
  generateImages :: generateImages_api

definition imageReplyText :: jsstring where
  "imageReplyText =
     ascii ''Buyur, ist'' @ [0x259] @ ascii ''diyin o m'' @ [0xFC] @ ascii ''k'' @ [0x259] @
     ascii ''mm'' @ [0x259] @ ascii ''l t'' @ [0x259] @ ascii ''svir:''"

definition defaultErrorText :: jsstring where
  "defaultErrorText = ascii ''Sistem x'' @ [0x259] @ ascii ''tas'' @ [0x131] @ ascii ''.''"

text \<open>\<open>textOverride || inputValue.trim()\<close>\<close>

definition textToSend :: "jsstring option \<Rightarrow> app_state \<Rightarrow> jsstring" where
  "textToSend textOverride s =
     (if truthy textOverride then the textOverride else trim (inputValue s))"

definition newUserMessage :: "send_env \<Rightarrow> jsstring \<Rightarrow> jsstring option \<Rightarrow> Message" where
  "newUserMessage env txt currentAttachment =
     \<lparr>m_id = showNat (now_user env), m_sender = USER, m_text = txt,
      m_timestamp = date_user env, m_isError = None,
      m_attachment = (if truthy currentAttachment then currentAttachment else None)\<rparr>"

text \<open>
  The message appended after the request: the bot message of the image branch, the bot
  message of the text branch, or the error message of the \<open>catch\<close> block.
\<close>

definition imageReply :: "send_env \<Rightarrow> js_error + jsstring option \<Rightarrow> Message" where
  "imageReply env outcome =
     (case outcome of
        Inr bytes \<Rightarrow>
          \<lparr>m_id = showNat (now_reply env + 1), m_sender = BOT, m_text = imageReplyText,
           m_timestamp = date_reply env, m_isError = None, m_attachment = bytes\<rparr>
      | Inl (Error message) \<Rightarrow>
          \<lparr>m_id = showNat (now_reply env + 1), m_sender = BOT,
           m_text = (if message \<noteq> [] then message else defaultErrorText),
           m_timestamp = date_reply env, m_isError = Some True, m_attachment = None\<rparr>)"

definition textReply :: "send_env \<Rightarrow> js_error + jsstring \<Rightarrow> Message" where
  "textReply env outcome =
     (case outcome of
        Inr responseText \<Rightarrow>
          \<lparr>m_id = showNat (now_reply env + 1), m_sender = BOT, m_text = responseText,
           m_timestamp = date_reply env, m_isError = None, m_attachment = None\<rparr>
      | Inl (Error message) \<Rightarrow>
          \<lparr>m_id = showNat (now_reply env + 1), m_sender = BOT,
           m_text = (if message \<noteq> [] then message else defaultErrorText),
           m_timestamp = date_reply env, m_isError = Some True, m_attachment = None\<rparr>)"

text \<open>
  \<open>handleSendMessage\<close>, run to its end: the state updates before the request, the request,
  the reply and the \<open>finally\<close> block. The history argument is the \<open>messages\<close> of the
  render that created the handler followed by the new user message.
\<close>

definition handleSendMessage :: "send_env \<Rightarrow> jsstring option \<Rightarrow> app_state \<Rightarrow> app_state" where
  "handleSendMessage env textOverride s =
     (let txt = textToSend textOverride s
      in if (txt = [] \<and> \<not> truthy (attachment s)) \<or> isLoading s \<or> selectedLanguage s = None
         then s
         else
           (let currentAttachment = attachment s;
                user = newUserMessage env txt currentAttachment;
                reply =
                  (if isImageGenerationRequest txt \<and> \<not> truthy currentAttachment
                   then imageReply env (generateImage (generateImages env) txt)
                   else textReply env
                          (sendMessageToGemini (generateContent env) (messages s @ [user]) txt
                             currentAttachment (langMap (the (selectedLanguage s)))))
            in s\<lparr>inputValue := [], attachment := None,
                 messages := messages s @ [user] @ [reply], isLoading := False\<rparr>))"

definition handlePreview :: "jsstring \<Rightarrow> app_state \<Rightarrow> app_state" where
  "handlePreview code s = s\<lparr>previewCode := code, currentView := preview\<rparr>"

definition saveProject :: "nat \<Rightarrow> nat \<Rightarrow> app_state \<Rightarrow> app_state" where
  "saveProject now date s =
     (if trim (projectNameInput s) = [] then s
      else
        (let newProject =
               \<lparr>p_id = showNat now, p_name = projectNameInput s, p_code = previewCode s,
                p_thumbnail = None, p_createdAt = date\<rparr>
         in s\<lparr>projects := newProject # projects s, showSaveDialog := False,
              projectNameInput := [],
              alerts := alerts s @ [ascii ''Project Saved to Library!'']\<rparr>))"

definition loadProject :: "Project \<Rightarrow> app_state \<Rightarrow> app_state" where
  "loadProject project s = s\<lparr>previewCode := p_code project, currentView := preview\<rparr>"

definition deleteProject :: "jsstring \<Rightarrow> app_state \<Rightarrow> app_state" where
  "deleteProject ident s = s\<lparr>projects := filter (\<lambda>p. p_id p \<noteq> ident) (projects s)\<rparr>"

section \<open>The user interface as a transition system\<close>

text \<open>
  An event is one activation of a control that \<open>App\<close> renders, with what the handler
  reads from outside. \<open>step\<close> runs the handler when the control is rendered in the state,
  and leaves the state as it is otherwise:
  \<^item> before a language is chosen only the language buttons are rendered;
  \<^item> the chat (input, attachment, send, suggestions, preview buttons) is rendered in the
    view \<open>chat\<close>; a suggestion is the send with an override text, here any text;
  \<^item> the header with the projects button is rendered outside the view \<open>preview\<close>;
  \<^item> the save dialog is rendered inside the view \<open>preview\<close> when \<open>showSaveDialog\<close> holds;
  \<^item> the project cards are rendered in the view \<open>projects\<close>.
  A send runs to its end in one step: its request is in flight during no other event. The
  handler writes only \<open>inputValue\<close>, \<open>attachment\<close>, \<open>messages\<close> and \<open>isLoading\<close>.
\<close>

datatype event =
    SelectLanguage nat Language
  | ChangeInput jsstring
  | ChangeAttachment "jsstring option"
  | SendMessage send_env "jsstring option"
  | ClickPreview nat
  | BackToChat
  | OpenProjects
  | OpenSaveDialog
  | ChangeProjectName jsstring
  | CancelSaveDialog
  | ClickSave nat nat
  | OpenProject nat
  | DeleteProject nat

definition shown :: "View \<Rightarrow> app_state \<Rightarrow> bool" where
  "shown v s = (selectedLanguage s \<noteq> None \<and> currentView s = v)"

fun step :: "event \<Rightarrow> app_state \<Rightarrow> app_state" where
  "step (SelectLanguage date lang) s =
     (if selectedLanguage s = None then handleLanguageSelect date lang s else s)"
| "step (ChangeInput v) s = (if shown chat s then s\<lparr>inputValue := v\<rparr> else s)"
| "step (ChangeAttachment a) s = (if shown chat s then s\<lparr>attachment := a\<rparr> else s)"
| "step (SendMessage env textOverride) s =
     (if shown chat s then handleSendMessage env textOverride s else s)"
| "step (ClickPreview i) s =
     (if shown chat s \<and> i < length (messages s) \<and> previewButtonShown (messages s ! i)
      then handlePreview (the (htmlCode (messages s ! i))) s else s)"
| "step BackToChat s =
     (if shown preview s \<or> shown projects_view s then s\<lparr>currentView := chat\<rparr> else s)"
| "step OpenProjects s =
     (if selectedLanguage s \<noteq> None \<and> currentView s \<noteq> preview
      then s\<lparr>currentView := projects_view\<rparr> else s)"
| "step OpenSaveDialog s = (if shown preview s then s\<lparr>showSaveDialog := True\<rparr> else s)"
| "step (ChangeProjectName n) s =
     (if shown preview s \<and> showSaveDialog s then s\<lparr>projectNameInput := n\<rparr> else s)"
| "step CancelSaveDialog s =
     (if shown preview s \<and> showSaveDialog s then s\<lparr>showSaveDialog := False\<rparr> else s)"
| "step (ClickSave now date) s =
     (if shown preview s \<and> showSaveDialog s then saveProject now date s else s)"
| "step (OpenProject i) s =
     (if shown projects_view s \<and> i < length (projects s)
      then loadProject (projects s ! i) s else s)"
| "step (DeleteProject i) s =
     (if shown projects_view s \<and> i < length (projects s)
      then deleteProject (p_id (projects s ! i)) s else s)"

fun run :: "event list \<Rightarrow> app_state \<Rightarrow> app_state" where
  "run [] s = s"
| "run (e # es) s = run es (step e s)"

text \<open>
  The invariant of the preview: the view \<open>preview\<close> has a payload, and so has every saved
  project.
\<close>

definition preview_inv :: "app_state \<Rightarrow> bool" where
  "preview_inv s =
     ((currentView s = preview \<longrightarrow> previewCode s \<noteq> []) \<and>
      list_all (\<lambda>p. p_code p \<noteq> []) (projects s))"

section \<open>Helper lemmas\<close>

lemma startsWith_iff: "startsWith t k \<longleftrightarrow> (\<exists>post. t = k @ post)"
  by (induction t k rule: startsWith.induct) auto

lemma includes_str_iff: "includes_str t k \<longleftrightarrow> (\<exists>pre post. t = pre @ k @ post)"
proof (induction t)
  case Nil
  then show ?case by auto
next
  case (Cons c cs)
  show ?case
  proof
    assume "includes_str (c # cs) k"
    then consider "startsWith (c # cs) k" | "includes_str cs k" by auto
    then show "\<exists>pre post. c # cs = pre @ k @ post"
    proof cases
      case 1
      then obtain post where "c # cs = k @ post" by (auto simp: startsWith_iff)
      then have "c # cs = [] @ k @ post" by simp
      then show ?thesis by blast
    next
      case 2
      then obtain pre post where "cs = pre @ k @ post" using Cons.IH by blast
      then have "c # cs = (c # pre) @ k @ post" by simp
      then show ?thesis by blast
    qed
  next
    assume "\<exists>pre post. c # cs = pre @ k @ post"
    then obtain pre post where eq: "c # cs = pre @ k @ post" by blast
    show "includes_str (c # cs) k"
    proof (cases pre)
      case Nil
      with eq have "startsWith (c # cs) k" by (auto simp: startsWith_iff)
      then show ?thesis by simp
    next
      case (Cons p ps)
      with eq have "cs = ps @ k @ post" by simp
      then have "includes_str cs k" using Cons.IH by blast
      then show ?thesis by simp
    qed
  qed
qed

lemma trim_whitespace: "list_all isWhiteSpace s \<Longrightarrow> trim s = []"
  by (auto simp: trim_def list_all_iff dest: set_dropWhileD)

lemma ascii_case_roundtrip_unit:
  "c < 0x80 \<Longrightarrow> concat (map lowerUnit (upperUnit c)) = lowerUnit c"
proof (cases "0x61 \<le> c \<and> c \<le> 0x7A")
  case True
  then have u: "upperUnit c = [c - 0x20]" by (simp add: upperUnit_def)
  from True have "0x41 \<le> c - 0x20 \<and> c - 0x20 \<le> 0x5A" by arith
  then have "lowerUnit (c - 0x20) = [c - 0x20 + 0x20]" by (simp add: lowerUnit_def)
  moreover from True have "c - 0x20 + 0x20 = c" by arith
  moreover from True have "lowerUnit c = [c]" by (simp add: lowerUnit_def)
  ultimately show ?thesis using u by simp
next
  case False
  assume "c < 0x80"
  with False have "upperUnit c = [c]" by (auto simp: upperUnit_def)
  then show ?thesis by simp
qed

lemma ascii_case_roundtrip:
  "list_all (\<lambda>c. c < 0x80) s \<Longrightarrow> toLowerCase (toUpperCase s) = toLowerCase s"
  by (induction s) (simp_all add: toLowerCase_def toUpperCase_def ascii_case_roundtrip_unit)

lemma handleSendMessage_text_path:
  assumes "selectedLanguage s = Some lang" and "\<not> isLoading s"
    and "txt = textToSend ov s" and "txt \<noteq> [] \<or> truthy (attachment s)"
    and "\<not> (isImageGenerationRequest txt \<and> \<not> truthy (attachment s))"
  shows "messages (handleSendMessage env ov s) =
     messages s @
     [newUserMessage env txt (attachment s),
      textReply env
        (sendMessageToGemini (generateContent env)
           (messages s @ [newUserMessage env txt (attachment s)]) txt (attachment s)
           (langMap lang))]"
  using assms by (auto simp: handleSendMessage_def Let_def)

lemma handleSendMessage_text_endpoint:
  assumes "selectedLanguage s = Some lang" and "\<not> isLoading s"
    and "txt = textToSend ov s" and "txt \<noteq> [] \<or> truthy (attachment s)"
    and "\<not> (isImageGenerationRequest txt \<and> \<not> truthy (attachment s))"
  shows "messages (handleSendMessage env ov s) =
     messages s @
     [newUserMessage env txt (attachment s),
      textReply env
        (case generateContent env
                (textRequest (messages s @ [newUserMessage env txt (attachment s)]) txt
                   (attachment s) (langMap lang)) of
           Inl e \<Rightarrow> Inl (Error connectionLostMessage)
         | Inr response \<Rightarrow>
             (case resp_text response of
                None \<Rightarrow> Inr responseBlockedNotice
              | Some t \<Rightarrow> if t = [] then Inr responseBlockedNotice else Inr t))]"
  using assms by (auto simp: handleSendMessage_def sendMessageToGemini_def Let_def)

lemma handleSendMessage_frame:
  "currentView (handleSendMessage env ov s) = currentView s \<and>
   previewCode (handleSendMessage env ov s) = previewCode s \<and>
   projects (handleSendMessage env ov s) = projects s \<and>
   showSaveDialog (handleSendMessage env ov s) = showSaveDialog s \<and>
   projectNameInput (handleSendMessage env ov s) = projectNameInput s"
  by (simp add: handleSendMessage_def Let_def)

lemma preview_inv_initial: "preview_inv initial_state"
  by (simp add: preview_inv_def initial_state_def)

lemma preview_inv_step: "preview_inv s \<Longrightarrow> preview_inv (step e s)"
proof (cases e)
  case (SendMessage env ov)
  assume "preview_inv s"
  then show ?thesis using SendMessage handleSendMessage_frame [of env ov s]
    by (simp add: preview_inv_def)
next
  case (ClickPreview i)
  assume "preview_inv s"
  then show ?thesis using ClickPreview
    by (auto simp: preview_inv_def handlePreview_def previewButtonShown_def truthy_def
             split: option.splits)
next
  case (ClickSave now date)
  assume "preview_inv s"
  then show ?thesis using ClickSave
    by (auto simp: preview_inv_def saveProject_def shown_def Let_def)
next
  case (OpenProject i)
  assume "preview_inv s"
  then show ?thesis using OpenProject
    by (auto simp: preview_inv_def loadProject_def list_all_length)
next
  case (DeleteProject i)
  assume "preview_inv s"
  then show ?thesis using DeleteProject
    by (auto simp: preview_inv_def deleteProject_def list_all_iff)
qed (auto simp: preview_inv_def handleLanguageSelect_def shown_def)

lemma preview_inv_run: "preview_inv s \<Longrightarrow> preview_inv (run es s)"
  by (induction es arbitrary: s) (simp_all add: preview_inv_step)

section \<open>Transport client: the request\<close>

text \<open>
  C1. For every endpoint, \<open>sendMessageToGemini\<close> calls it with the request
  \<open>textRequest H M img lang\<close> and returns what the \<open>try\<close> block makes of its outcome. The
  contents of that request are one turn per entry of the history \<open>H\<close>, in the order of \<open>H\<close>,
  each with role \<open>user\<close> when the sender is \<open>USER\<close> and \<open>model\<close> otherwise, followed by one
  turn of role \<open>user\<close> whose last part is the text \<open>M\<close>.
\<close>

theorem request_contents_order:
  "sendMessageToGemini api H M img lang =
     (case api (textRequest H M img lang) of
        Inl e \<Rightarrow> Inl (Error connectionLostMessage)
      | Inr response \<Rightarrow>
          (case resp_text response of
             None \<Rightarrow> Inr responseBlockedNotice
           | Some t \<Rightarrow> if t = [] then Inr responseBlockedNotice else Inr t)) \<and>
   gc_contents (textRequest H M img lang) =
     map historyTurn H @ [\<lparr>role = ascii ''user'', parts = currentParts M img\<rparr>] \<and>
   length (gc_contents (textRequest H M img lang)) = length H + 1 \<and>
   take (length H) (gc_contents (textRequest H M img lang)) = map historyTurn H \<and>
   map role (take (length H) (gc_contents (textRequest H M img lang))) =
     map (\<lambda>msg. if m_sender msg = USER then ascii ''user'' else ascii ''model'') H \<and>
   role (last (gc_contents (textRequest H M img lang))) = ascii ''user'' \<and>
   last (parts (last (gc_contents (textRequest H M img lang)))) = TextPart M"
  by (simp add: sendMessageToGemini_def textRequest_def buildContents_def currentParts_def
        historyTurn_def)

text \<open>
  C1 at a history of a bot message and a user message with an attachment and no text, with
  an endpoint that answers only when it receives exactly the three expected turns.
\<close>

theorem request_contents_order_witness:
  "sendMessageToGemini
     (\<lambda>r. if gc_contents r =
               [\<lparr>role = ascii ''model'', parts = [TextPart (ascii ''hello'')]\<rparr>,
                \<lparr>role = ascii ''user'',
                 parts = [InlineData (ascii ''image/jpeg'') (ascii ''QUJD'')]\<rparr>,
                \<lparr>role = ascii ''user'', parts = [TextPart (ascii ''what is this?'')]\<rparr>]
           then Inr \<lparr>resp_text = Some (ascii ''a cat'')\<rparr>
           else Inl (Error (ascii ''unexpected contents'')))
     [\<lparr>m_id = ascii ''welcome'', m_sender = BOT, m_text = ascii ''hello'', m_timestamp = 0,
       m_isError = None, m_attachment = None\<rparr>,
      \<lparr>m_id = ascii ''17'', m_sender = USER, m_text = [], m_timestamp = 17,
       m_isError = None, m_attachment = Some (ascii ''QUJD'')\<rparr>]
     (ascii ''what is this?'') None (ascii ''English'') = Inr (ascii ''a cat'')"
  using request_contents_order
    [of "\<lambda>r. if gc_contents r =
               [\<lparr>role = ascii ''model'', parts = [TextPart (ascii ''hello'')]\<rparr>,
                \<lparr>role = ascii ''user'',
                 parts = [InlineData (ascii ''image/jpeg'') (ascii ''QUJD'')]\<rparr>,
                \<lparr>role = ascii ''user'', parts = [TextPart (ascii ''what is this?'')]\<rparr>]
           then Inr \<lparr>resp_text = Some (ascii ''a cat'')\<rparr>
           else Inl (Error (ascii ''unexpected contents''))"
        "[\<lparr>m_id = ascii ''welcome'', m_sender = BOT, m_text = ascii ''hello'', m_timestamp = 0,
           m_isError = None, m_attachment = None\<rparr>,
          \<lparr>m_id = ascii ''17'', m_sender = USER, m_text = [], m_timestamp = 17,
           m_isError = None, m_attachment = Some (ascii ''QUJD'')\<rparr>]"
        "ascii ''what is this?''" None "ascii ''English''"]
  by (simp add: historyTurn_def currentParts_def truthy_def ascii_def)

text \<open>
  C2. A submission with a non-empty text that takes the text branch of \<open>handleSendMessage\<close>
  calls the endpoint, through \<open>sendMessageToGemini\<close>, with the request built from the
  history \<open>messages @ [user]\<close>, whose last entry is the new user message, and from the text
  of that message as current message. The contents of the request that the endpoint
  receives therefore end with two equal turns of role \<open>user\<close>, each ending in that text.
  (A submission of an attachment alone has the empty text: its history turn has no text
  part, and it is not a text submission.)
\<close>

theorem text_submission_sent_twice:
  assumes "selectedLanguage s = Some lang" and "\<not> isLoading s"
    and "txt = textToSend textOverride s" and "txt \<noteq> []"
    and "\<not> (isImageGenerationRequest txt \<and> \<not> truthy (attachment s))"
    and "user = newUserMessage env txt (attachment s)"
    and "request = textRequest (messages s @ [user]) txt (attachment s) (langMap lang)"
  shows "messages (handleSendMessage env textOverride s) =
           messages s @
           [user,
            textReply env
              (case generateContent env request of
                 Inl e \<Rightarrow> Inl (Error connectionLostMessage)
               | Inr response \<Rightarrow>
                   (case resp_text response of
                      None \<Rightarrow> Inr responseBlockedNotice
                    | Some t \<Rightarrow> if t = [] then Inr responseBlockedNotice else Inr t))] \<and>
         last (messages s @ [user]) = user \<and> m_text user = txt \<and>
         gc_contents request =
           map historyTurn (messages s) @ [historyTurn user, historyTurn user] \<and>
         role (historyTurn user) = ascii ''user'' \<and>
         last (parts (historyTurn user)) = TextPart txt"
proof -
  have msgs: "messages (handleSendMessage env textOverride s) =
           messages s @
           [user,
            textReply env
              (case generateContent env request of
                 Inl e \<Rightarrow> Inl (Error connectionLostMessage)
               | Inr response \<Rightarrow>
                   (case resp_text response of
                      None \<Rightarrow> Inr responseBlockedNotice
                    | Some t \<Rightarrow> if t = [] then Inr responseBlockedNotice else Inr t))]"
    using assms handleSendMessage_text_endpoint [of s lang "txt" textOverride env] by simp
  have turn: "\<lparr>role = ascii ''user'', parts = currentParts txt (attachment s)\<rparr> = historyTurn user"
    using assms(4,6)
    by (auto simp: historyTurn_def currentParts_def newUserMessage_def truthy_def
             split: option.splits)
  have contents: "gc_contents request =
           map historyTurn (messages s) @ [historyTurn user, historyTurn user]"
    using turn assms(7) by (simp add: textRequest_def buildContents_def)
  have r: "role (historyTurn user) = ascii ''user''"
    using assms(6) by (simp add: historyTurn_def newUserMessage_def)
  have l: "last (parts (historyTurn user)) = TextPart txt"
    using assms(4,6) by (simp add: historyTurn_def newUserMessage_def)
  have t: "m_text user = txt" using assms(6) by (simp add: newUserMessage_def)
  show ?thesis using msgs contents r l t by simp
qed

text \<open>
  C2 at the input \<open>hello\<close>, typed with surrounding blanks after English was chosen, with an
  endpoint that answers only when the contents it receives are the welcome turn followed by
  the user turn twice.
\<close>

theorem text_submission_sent_twice_witness:
  "selectedLanguage
     ((handleLanguageSelect 0 en initial_state)\<lparr>inputValue := ascii '' hello ''\<rparr>) = Some en \<and>
   \<not> isLoading ((handleLanguageSelect 0 en initial_state)\<lparr>inputValue := ascii '' hello ''\<rparr>) \<and>
   textToSend None
     ((handleLanguageSelect 0 en initial_state)\<lparr>inputValue := ascii '' hello ''\<rparr>) =
     ascii ''hello'' \<and>
   \<not> isImageGenerationRequest (ascii ''hello'') \<and>
   map m_text
     (messages
        (handleSendMessage
           \<lparr>now_user = 10, date_user = 11, now_reply = 20, date_reply = 21,
            generateContent =
              (\<lambda>r. if gc_contents r =
                        [\<lparr>role = ascii ''model'', parts = [TextPart (WELCOME_MESSAGES en)]\<rparr>,
                         \<lparr>role = ascii ''user'', parts = [TextPart (ascii ''hello'')]\<rparr>,
                         \<lparr>role = ascii ''user'', parts = [TextPart (ascii ''hello'')]\<rparr>]
                    then Inr \<lparr>resp_text = Some (ascii ''ok'')\<rparr>
                    else Inl (Error (ascii ''unexpected contents''))),
            generateImages = (\<lambda>r. Inl (Error []))\<rparr>
           None
           ((handleLanguageSelect 0 en initial_state)\<lparr>inputValue := ascii '' hello ''\<rparr>))) =
     [WELCOME_MESSAGES en, ascii ''hello'', ascii ''ok'']"
proof -
  let ?s = "(handleLanguageSelect 0 en initial_state)\<lparr>inputValue := ascii '' hello ''\<rparr>"
  let ?env =
    "\<lparr>now_user = 10, date_user = 11, now_reply = 20, date_reply = 21,
      generateContent =
        (\<lambda>r. if gc_contents r =
                  [\<lparr>role = ascii ''model'', parts = [TextPart (WELCOME_MESSAGES en)]\<rparr>,
                   \<lparr>role = ascii ''user'', parts = [TextPart (ascii ''hello'')]\<rparr>,
                   \<lparr>role = ascii ''user'', parts = [TextPart (ascii ''hello'')]\<rparr>]
              then Inr \<lparr>resp_text = Some (ascii ''ok'')\<rparr>
              else Inl (Error (ascii ''unexpected contents''))),
      generateImages = (\<lambda>r. Inl (Error []))\<rparr>"
  have h1: "selectedLanguage ?s = Some en"
    by (simp add: initial_state_def handleLanguageSelect_def)
  have h2: "\<not> isLoading ?s"
    by (simp add: initial_state_def handleLanguageSelect_def)
  have h3: "ascii ''hello'' = textToSend None ?s"
    by (simp add: textToSend_def truthy_def trim_def isWhiteSpace_def ascii_def)
  have h4: "ascii ''hello'' \<noteq> []"
    by (simp add: ascii_def)
  have h5: "\<not> (isImageGenerationRequest (ascii ''hello'') \<and> \<not> truthy (attachment ?s))"
    by (simp add: isImageGenerationRequest_def toLowerCase_def lowerUnit_def keywords_list_def
          subjects_def ascii_def)
  have h6: "newUserMessage ?env (ascii ''hello'') (attachment ?s) =
      newUserMessage ?env (ascii ''hello'') (attachment ?s)"
    by (rule refl)
  have h7: "textRequest (messages ?s @ [newUserMessage ?env (ascii ''hello'') (attachment ?s)])
        (ascii ''hello'') (attachment ?s) (langMap en) =
      textRequest (messages ?s @ [newUserMessage ?env (ascii ''hello'') (attachment ?s)])
        (ascii ''hello'') (attachment ?s) (langMap en)"
    by (rule refl)
  show ?thesis
    using h1 h2 h3 [symmetric] h5 text_submission_sent_twice [OF h1 h2 h3 h4 h5 h6 h7]
    by (simp add: initial_state_def handleLanguageSelect_def
          truthy_def newUserMessage_def textReply_def historyTurn_def ascii_def)
qed

section \<open>Intent classifier\<close>

text \<open>
  C3. \<open>isImageGenerationRequest text\<close> is true if and only if the lower-cased text contains
  (as a contiguous substring) at least one entry of the action-verb list and at least one
  entry of the subject-noun list.
\<close>

theorem isImageGenerationRequest_iff:
  "isImageGenerationRequest t \<longleftrightarrow>
     (\<exists>k \<in> set keywords_list. \<exists>pre post. toLowerCase t = pre @ k @ post) \<and>
     (\<exists>s \<in> set subjects. \<exists>pre post. toLowerCase t = pre @ s @ post)"
  by (simp add: isImageGenerationRequest_def Let_def list_ex_iff includes_str_iff)

text \<open>C3 at an English request in mixed case, and at a greeting that is no request.\<close>

theorem isImageGenerationRequest_iff_witness:
  "isImageGenerationRequest (ascii ''Draw an IMAGE'') \<and>
   (\<exists>k \<in> set keywords_list. \<exists>pre post. toLowerCase (ascii ''Draw an IMAGE'') = pre @ k @ post) \<and>
   (\<exists>s \<in> set subjects. \<exists>pre post. toLowerCase (ascii ''Draw an IMAGE'') = pre @ s @ post) \<and>
   \<not> isImageGenerationRequest (ascii ''nec'' @ [0x259] @ ascii ''s'' @ [0x259] @ ascii ''n'')"
proof -
  have h: "isImageGenerationRequest (ascii ''Draw an IMAGE'')"
    by (simp add: isImageGenerationRequest_def toLowerCase_def lowerUnit_def keywords_list_def
          subjects_def ascii_def)
  have n: "\<not> isImageGenerationRequest (ascii ''nec'' @ [0x259] @ ascii ''s'' @ [0x259] @ ascii ''n'')"
    by (simp add: isImageGenerationRequest_def toLowerCase_def lowerUnit_def keywords_list_def
          subjects_def ascii_def)
  show ?thesis using h n isImageGenerationRequest_iff [of "ascii ''Draw an IMAGE''"] by blast
qed

text \<open>
  C4, as stated, fails: the verb \<open>haz\<close>\<open>U+0131\<close>\<open>rla\<close> has a dotless i, whose upper case is
  \<open>I\<close>, whose lower case is the dotted \<open>i\<close>. The request with that verb is classified as an
  image request, its upper-cased form is not.
\<close>

theorem classifier_upper_case_counterexample:
  "isImageGenerationRequest (ascii ''haz'' @ [0x131] @ ascii ''rla foto'') \<noteq>
   isImageGenerationRequest (toUpperCase (ascii ''haz'' @ [0x131] @ ascii ''rla foto''))"
  by (simp add: isImageGenerationRequest_def toLowerCase_def toUpperCase_def upperUnit_def
        lowerUnit_def keywords_list_def subjects_def ascii_def)

text \<open>
  C4, amended. The classifier gives the same result on \<open>s\<close> and on \<open>s\<close> in upper case
  whenever the upper-cased text lower-cases to the lower-cased \<open>s\<close>; every ASCII text does.
\<close>

theorem classifier_upper_case_roundtrip:
  "(toLowerCase (toUpperCase s) = toLowerCase s \<longrightarrow>
      isImageGenerationRequest (toUpperCase s) = isImageGenerationRequest s) \<and>
   (list_all (\<lambda>c. c < 0x80) s \<longrightarrow>
      isImageGenerationRequest (toUpperCase s) = isImageGenerationRequest s)"
  by (simp add: isImageGenerationRequest_def ascii_case_roundtrip)

text \<open>C4, amended, at an Azerbaijani request and at an ASCII request.\<close>

theorem classifier_upper_case_roundtrip_witness:
  "toLowerCase (toUpperCase ([0x15E, 0x259] @ ascii ''kil '' @ [0xE7, 0x259] @ ascii ''k'')) =
     toLowerCase ([0x15E, 0x259] @ ascii ''kil '' @ [0xE7, 0x259] @ ascii ''k'') \<and>
   isImageGenerationRequest (toUpperCase ([0x15E, 0x259] @ ascii ''kil '' @ [0xE7, 0x259] @ ascii ''k'')) =
     isImageGenerationRequest ([0x15E, 0x259] @ ascii ''kil '' @ [0xE7, 0x259] @ ascii ''k'') \<and>
   list_all (\<lambda>c. c < 0x80) (ascii ''draw a photo'') \<and>
   isImageGenerationRequest (toUpperCase (ascii ''draw a photo'')) =
     isImageGenerationRequest (ascii ''draw a photo'')"
proof -
  have h: "toLowerCase (toUpperCase ([0x15E, 0x259] @ ascii ''kil '' @ [0xE7, 0x259] @ ascii ''k'')) =
     toLowerCase ([0x15E, 0x259] @ ascii ''kil '' @ [0xE7, 0x259] @ ascii ''k'')"
    by (simp add: toLowerCase_def toUpperCase_def upperUnit_def lowerUnit_def ascii_def)
  have a: "list_all (\<lambda>c. c < 0x80) (ascii ''draw a photo'')"
    by (simp add: ascii_def)
  show ?thesis
    using h a
      classifier_upper_case_roundtrip [of "[0x15E, 0x259] @ ascii ''kil '' @ [0xE7, 0x259] @ ascii ''k''"]
      classifier_upper_case_roundtrip [of "ascii ''draw a photo''"]
    by blast
qed

text \<open>
  C5, as stated, fails: on the sample input the classifier returns false.
\<close>

theorem sample_request_counterexample:
  "\<not> isImageGenerationRequest
     (ascii ''m'' @ [0x259] @ ascii ''n'' @ [0x259] @ ascii '' Bak'' @ [0x131] @ ascii ''n'' @
      [0x131] @ ascii ''n '' @ [0x15F, 0x259] @ ascii ''klini '' @ [0xE7, 0x259] @ ascii ''k'')"
  by (simp add: isImageGenerationRequest_def toLowerCase_def lowerUnit_def keywords_list_def
        subjects_def ascii_def)

text \<open>
  C5, amended. The lower-cased sample contains the verb (\<open>U+00E7 U+0259 k\<close>) and not the
  subject (\<open>U+015F U+0259 kil\<close>): the inflected noun of the sample has no \<open>i\<close> before the
  \<open>l\<close>. The classifier returns false, and submitting the sample, once a language is chosen
  and no request is in flight, takes the text branch: the reply is that of
  \<open>sendMessageToGemini\<close>.
\<close>

theorem sample_request_takes_text_path:
  "(let sample =
      (ascii ''m'' @ [0x259] @ ascii ''n'' @ [0x259] @ ascii '' Bak'' @ [0x131] @ ascii ''n'' @
      [0x131] @ ascii ''n '' @ [0x15F, 0x259] @ ascii ''klini '' @ [0xE7, 0x259] @ ascii ''k'')
    in includes_str (toLowerCase sample) ([0xE7, 0x259] @ ascii ''k'') \<and>
       \<not> includes_str (toLowerCase sample) ([0x15F, 0x259] @ ascii ''kil'') \<and>
       \<not> isImageGenerationRequest sample \<and>
       (selectedLanguage s = Some lang \<and> \<not> isLoading s \<longrightarrow>
        messages (handleSendMessage env (Some sample) s) =
          messages s @
          [newUserMessage env sample (attachment s),
           textReply env
             (sendMessageToGemini (generateContent env)
                (messages s @ [newUserMessage env sample (attachment s)]) sample (attachment s)
                (langMap lang))]))"
proof -
  let ?sample =
    "(ascii ''m'' @ [0x259] @ ascii ''n'' @ [0x259] @ ascii '' Bak'' @ [0x131] @ ascii ''n'' @
      [0x131] @ ascii ''n '' @ [0x15F, 0x259] @ ascii ''klini '' @ [0xE7, 0x259] @ ascii ''k'')"
  have c: "includes_str (toLowerCase ?sample) ([0xE7, 0x259] @ ascii ''k'')"
    by (simp add: toLowerCase_def lowerUnit_def ascii_def)
  have k: "\<not> includes_str (toLowerCase ?sample) ([0x15F, 0x259] @ ascii ''kil'')"
    by (simp add: toLowerCase_def lowerUnit_def ascii_def)
  have n: "\<not> isImageGenerationRequest ?sample"
    by (simp add: isImageGenerationRequest_def toLowerCase_def lowerUnit_def keywords_list_def
          subjects_def ascii_def)
  have ne: "?sample \<noteq> []"
    by (simp add: ascii_def)
  have t: "textToSend (Some ?sample) s = ?sample"
    using ne by (simp add: textToSend_def truthy_def)
  have p: "selectedLanguage s = Some lang \<and> \<not> isLoading s \<longrightarrow>
        messages (handleSendMessage env (Some ?sample) s) =
          messages s @
          [newUserMessage env ?sample (attachment s),
           textReply env
             (sendMessageToGemini (generateContent env)
                (messages s @ [newUserMessage env ?sample (attachment s)]) ?sample (attachment s)
                (langMap lang))]"
    using handleSendMessage_text_path [of s lang ?sample "Some ?sample" env] n ne t
    by simp
  show ?thesis unfolding Let_def by (intro conjI c k n p)
qed

text \<open>
  C5, amended, after Azerbaijani was chosen, with an image endpoint that throws and a text
  endpoint that answers \<open>ok\<close>: the reply is \<open>ok\<close>.
\<close>

theorem sample_request_takes_text_path_witness:
  "map m_text
     (messages
        (handleSendMessage
           \<lparr>now_user = 10, date_user = 11, now_reply = 20, date_reply = 21,
            generateContent = (\<lambda>r. Inr \<lparr>resp_text = Some (ascii ''ok'')\<rparr>),
            generateImages = (\<lambda>r. Inl (Error []))\<rparr>
           (Some
     (ascii ''m'' @ [0x259] @ ascii ''n'' @ [0x259] @ ascii '' Bak'' @ [0x131] @ ascii ''n'' @
      [0x131] @ ascii ''n '' @ [0x15F, 0x259] @ ascii ''klini '' @ [0xE7, 0x259] @ ascii ''k''))
           (handleLanguageSelect 0 az initial_state))) =
   [WELCOME_MESSAGES az,
    ascii ''m'' @ [0x259] @ ascii ''n'' @ [0x259] @ ascii '' Bak'' @ [0x131] @ ascii ''n'' @
      [0x131] @ ascii ''n '' @ [0x15F, 0x259] @ ascii ''klini '' @ [0xE7, 0x259] @ ascii ''k'',
    ascii ''ok'']"
proof -
  have h: "selectedLanguage (handleLanguageSelect 0 az initial_state) = Some az \<and>
      \<not> isLoading (handleLanguageSelect 0 az initial_state)"
    by (simp add: initial_state_def handleLanguageSelect_def)
  show ?thesis
    using h sample_request_takes_text_path
      [of "handleLanguageSelect 0 az initial_state" az
          "\<lparr>now_user = 10, date_user = 11, now_reply = 20, date_reply = 21,
            generateContent = (\<lambda>r. Inr \<lparr>resp_text = Some (ascii ''ok'')\<rparr>),
            generateImages = (\<lambda>r. Inl (Error []))\<rparr>"]
    by (simp add: initial_state_def handleLanguageSelect_def handleSendMessage_def
          textToSend_def truthy_def isImageGenerationRequest_def toLowerCase_def lowerUnit_def
          keywords_list_def subjects_def newUserMessage_def textReply_def
          sendMessageToGemini_def textRequest_def buildContents_def currentParts_def
          historyTurn_def trim_def isWhiteSpace_def ascii_def Let_def)
qed

section \<open>Project library\<close>

text \<open>
  C6. When the pending name is empty or holds only white space, \<open>saveProject\<close> changes
  nothing: the state, and with it the list of projects, is as before.
\<close>

theorem saveProject_blank:
  "list_all isWhiteSpace (projectNameInput s) \<Longrightarrow>
     saveProject now date s = s \<and> projects (saveProject now date s) = projects s"
  by (simp add: saveProject_def trim_whitespace)

text \<open>C6 at a name of a blank and a tab.\<close>

theorem saveProject_blank_witness:
  "list_all isWhiteSpace (projectNameInput (initial_state\<lparr>projectNameInput := [0x20, 0x9]\<rparr>)) \<and>
   projects (saveProject 5 6 (initial_state\<lparr>projectNameInput := [0x20, 0x9]\<rparr>)) =
     projects (initial_state\<lparr>projectNameInput := [0x20, 0x9]\<rparr>)"
proof -
  have h: "list_all isWhiteSpace (projectNameInput (initial_state\<lparr>projectNameInput := [0x20, 0x9]\<rparr>))"
    by (simp add: isWhiteSpace_def)
  show ?thesis using h saveProject_blank [OF h, of 5 6] by simp
qed

text \<open>
  C7. When the trimmed name is not empty, \<open>saveProject\<close> puts the new project, with the
  name as entered and the current preview code, in front of the previous list, which
  follows unchanged.
\<close>

theorem saveProject_named:
  "trim (projectNameInput s) \<noteq> [] \<Longrightarrow>
     projects (saveProject now date s) =
       \<lparr>p_id = showNat now, p_name = projectNameInput s, p_code = previewCode s,
        p_thumbnail = None, p_createdAt = date\<rparr> # projects s"
  by (simp add: saveProject_def Let_def)

text \<open>C7 at a name with a leading blank, which the project keeps.\<close>

theorem saveProject_named_witness:
  "trim (projectNameInput (initial_state\<lparr>previewCode := ascii ''<p>x</p>'',
                                          projectNameInput := ascii '' shop''\<rparr>)) \<noteq> [] \<and>
   projects (saveProject 5 6 (initial_state\<lparr>previewCode := ascii ''<p>x</p>'',
                                             projectNameInput := ascii '' shop''\<rparr>)) =
     [\<lparr>p_id = showNat 5, p_name = ascii '' shop'', p_code = ascii ''<p>x</p>'',
       p_thumbnail = None, p_createdAt = 6\<rparr>]"
proof -
  have h: "trim (projectNameInput (initial_state\<lparr>previewCode := ascii ''<p>x</p>'',
                                                 projectNameInput := ascii '' shop''\<rparr>)) \<noteq> []"
    by (simp add: trim_def isWhiteSpace_def ascii_def)
  show ?thesis using h saveProject_named [OF h, of 5 6] by (simp add: initial_state_def)
qed

section \<open>Transport client: failures\<close>

text \<open>
  C8. When the call of the endpoint throws, \<open>generateImage\<close> throws the fixed message of
  the busy image server and \<open>sendMessageToGemini\<close> the fixed message of the lost
  connection; whatever either function throws is that fixed message, never the exception
  of the endpoint.
\<close>

theorem transport_failure_messages:
  "(imageApi (imageRequest prompt) = Inl e1 \<longrightarrow>
      generateImage imageApi prompt = Inl (Error imageBusyMessage)) \<and>
   (textApi (textRequest h m i l) = Inl e2 \<longrightarrow>
      sendMessageToGemini textApi h m i l = Inl (Error connectionLostMessage)) \<and>
   (generateImage imageApi prompt = Inl err1 \<longrightarrow> err1 = Error imageBusyMessage) \<and>
   (sendMessageToGemini textApi h m i l = Inl err2 \<longrightarrow> err2 = Error connectionLostMessage)"
  by (auto simp: generateImage_def sendMessageToGemini_def
           split: sum.splits option.splits list.splits if_splits)

text \<open>C8 at endpoints that throw errors of their own.\<close>

theorem transport_failure_messages_witness:
  "generateImage (\<lambda>r. Inl (Error (ascii ''503''))) (ascii ''draw a photo'') =
     Inl (Error imageBusyMessage) \<and>
   sendMessageToGemini (\<lambda>r. Inl (Error (ascii ''fetch failed''))) [] (ascii ''hi'') None
     (ascii ''English'') = Inl (Error connectionLostMessage)"
  using transport_failure_messages
    [of "\<lambda>r. Inl (Error (ascii ''503''))" "ascii ''draw a photo''" "Error (ascii ''503'')"
        "\<lambda>r. Inl (Error (ascii ''fetch failed''))" "[]" "ascii ''hi''" None "ascii ''English''"
        "Error (ascii ''fetch failed'')" "Error imageBusyMessage" "Error connectionLostMessage"]
  by simp

text \<open>
  C9. When the endpoint returns a response whose text is absent or empty,
  \<open>sendMessageToGemini\<close> returns (it does not throw) the fixed notice of a blocked
  response.
\<close>

theorem blocked_response_notice:
  "textApi (textRequest h m i l) = Inr response \<Longrightarrow>
   resp_text response = None \<or> resp_text response = Some [] \<Longrightarrow>
   sendMessageToGemini textApi h m i l = Inr responseBlockedNotice"
  by (auto simp: sendMessageToGemini_def)

text \<open>C9 at a response with an empty text and at one with no text.\<close>

theorem blocked_response_notice_witness:
  "sendMessageToGemini (\<lambda>r. Inr \<lparr>resp_text = Some []\<rparr>) [] (ascii ''hi'') None (ascii ''English'') =
     Inr responseBlockedNotice \<and>
   sendMessageToGemini (\<lambda>r. Inr \<lparr>resp_text = None\<rparr>) [] (ascii ''hi'') None (ascii ''English'') =
     Inr responseBlockedNotice"
  using blocked_response_notice
    [of "\<lambda>r. Inr \<lparr>resp_text = Some []\<rparr>" "[]" "ascii ''hi''" None "ascii ''English''"
        "\<lparr>resp_text = Some []\<rparr>"]
    blocked_response_notice
    [of "\<lambda>r. Inr \<lparr>resp_text = None\<rparr>" "[]" "ascii ''hi''" None "ascii ''English''"
        "\<lparr>resp_text = None\<rparr>"]
  by simp

section \<open>View state\<close>

text \<open>
  C10. In every state that a sequence of events reaches from the initial state, the view
  \<open>preview\<close> has a non-empty \<open>previewCode\<close>.
\<close>

theorem preview_payload_nonempty:
  "currentView (run es initial_state) = preview \<Longrightarrow> previewCode (run es initial_state) \<noteq> []"
  using preview_inv_run [OF preview_inv_initial, of es] by (simp add: preview_inv_def)

text \<open>
  C10 along a run that reaches the preview: English is chosen, the bot answers with a fenced
  block of HTML, the preview button of that message is clicked.
\<close>

theorem preview_payload_nonempty_witness:
  "currentView
     (run [SelectLanguage 0 en,
           SendMessage
             \<lparr>now_user = 10, date_user = 10, now_reply = 20, date_reply = 20,
              generateContent = (\<lambda>r. Inr \<lparr>resp_text = Some (fenceHtml @ ascii ''<p>hi</p>'' @ fence)\<rparr>),
              generateImages = (\<lambda>r. Inl (Error []))\<rparr>
             (Some (ascii ''make a site'')),
           ClickPreview 2]
        initial_state) = preview \<and>
   previewCode
     (run [SelectLanguage 0 en,
           SendMessage
             \<lparr>now_user = 10, date_user = 10, now_reply = 20, date_reply = 20,
              generateContent = (\<lambda>r. Inr \<lparr>resp_text = Some (fenceHtml @ ascii ''<p>hi</p>'' @ fence)\<rparr>),
              generateImages = (\<lambda>r. Inl (Error []))\<rparr>
             (Some (ascii ''make a site'')),
           ClickPreview 2]
        initial_state) \<noteq> []"
proof -
  have h: "currentView
     (run [SelectLanguage 0 en,
           SendMessage
             \<lparr>now_user = 10, date_user = 10, now_reply = 20, date_reply = 20,
              generateContent = (\<lambda>r. Inr \<lparr>resp_text = Some (fenceHtml @ ascii ''<p>hi</p>'' @ fence)\<rparr>),
              generateImages = (\<lambda>r. Inl (Error []))\<rparr>
             (Some (ascii ''make a site'')),
           ClickPreview 2]
        initial_state) = preview"
    by (simp add: initial_state_def shown_def handleLanguageSelect_def handleSendMessage_def
          textToSend_def truthy_def isImageGenerationRequest_def toLowerCase_def lowerUnit_def
          keywords_list_def subjects_def newUserMessage_def textReply_def
          sendMessageToGemini_def previewButtonShown_def htmlCode_def htmlMatch_def
          fenceHtml_def fence_def doctype_def trim_def isWhiteSpace_def handlePreview_def
          ascii_def Let_def)
  show ?thesis using h preview_payload_nonempty [OF h] by blast
qed

end
